theory Spec2Isabelle
  imports Complex_Main "HOL-Library.Word" "HOL-Library.Multiset"
begin

section \<open>Strings and numbers of the host language\<close>

text \<open>
  A string of the program is a sequence of 16-bit code units, so that \<open>length\<close> counts
  what the program's \<^verbatim>\<open>.length\<close> counts.  \<open>str\<close> writes an ASCII literal; the two unit
  suffixes of \<^verbatim>\<open>ProjectItem.manday\<close> and the alert text are not ASCII and are given by
  their code units.
\<close>

type_synonym jschar = "16 word"
type_synonym jsstring = "jschar list"

definition str :: "string \<Rightarrow> jsstring" where
  "str cs = map (\<lambda>c. of_nat (of_char c)) cs"

text \<open>
  A number of the program is a double.  The model keeps the three special values and
  takes every finite value as an exact rational: comparison is exact as in the program,
  division is exact where the program rounds to the nearest double, and there is no
  negative zero.  The quotients the claims evaluate (\<open>20 / 20\<close>, \<open>45 / 20\<close>) are exact in
  both.
\<close>

datatype jsnum = Num rat | NaN | PosInf | NegInf

text \<open>The operator \<^verbatim>\<open><\<close> on numbers: false as soon as one side is \<open>NaN\<close>.\<close>

fun js_less :: "jsnum \<Rightarrow> jsnum \<Rightarrow> bool" where
  "js_less (Num a) (Num b) = (a < b)"
| "js_less (Num a) PosInf = True"
| "js_less NegInf (Num b) = True"
| "js_less NegInf PosInf = True"
| "js_less _ _ = False"

text \<open>The operator \<^verbatim>\<open>/\<close> on numbers.\<close>

fun js_div :: "jsnum \<Rightarrow> jsnum \<Rightarrow> jsnum" where
  "js_div (Num a) (Num b) =
     (if b = 0 then (if a = 0 then NaN else if 0 < a then PosInf else NegInf)
      else Num (a / b))"
| "js_div (Num a) PosInf = Num 0"
| "js_div (Num a) NegInf = Num 0"
| "js_div PosInf (Num b) = (if b < 0 then NegInf else PosInf)"
| "js_div NegInf (Num b) = (if b < 0 then PosInf else NegInf)"
| "js_div _ _ = NaN"

text \<open>
  \<^verbatim>\<open>Number.prototype.toString\<close>, in decimal notation: the digits of the integer part,
  then, for a value that is not an integer, a point and the digits of the fraction.
  This is the program's output for every value that is a decimal fraction of at most 15
  significant digits between \<open>10\<^sup>-\<^sup>6\<close> and \<open>10\<^sup>2\<^sup>1\<close>; outside that range the program
  prints the shortest digits that identify the double, or an exponent, and the model
  (which stops after 17 fraction digits) is not exact.
\<close>

function digits :: "nat \<Rightarrow> jsstring" where
  "digits n =
     (if n < 10 then [of_nat (48 + n)]
      else digits (n div 10) @ [of_nat (48 + n mod 10)])"
  by pat_completeness auto
termination
  by (relation "measure id") auto

declare digits.simps [simp del]

fun fraction_digits :: "nat \<Rightarrow> rat \<Rightarrow> jsstring" where
  "fraction_digits 0 f = []"
| "fraction_digits (Suc k) f =
     (if f = 0 then []
      else of_nat (48 + nat \<lfloor>10 * f\<rfloor>) #
           fraction_digits k (10 * f - of_int \<lfloor>10 * f\<rfloor>))"

fun Number_toString :: "jsnum \<Rightarrow> jsstring" where
  "Number_toString NaN = str ''NaN''"
| "Number_toString PosInf = str ''Infinity''"
| "Number_toString NegInf = str ''-Infinity''"
| "Number_toString (Num r) =
     (if r < 0 then str ''-'' else []) @
     digits (nat \<lfloor>\<bar>r\<bar>\<rfloor>) @
     (if \<bar>r\<bar> = of_int \<lfloor>\<bar>r\<bar>\<rfloor> then []
      else str ''.'' @ fraction_digits 17 (\<bar>r\<bar> - of_int \<lfloor>\<bar>r\<bar>\<rfloor>))"


section \<open>The project model\<close>

text \<open>
  Modelled from the spec: the enumeration \<^verbatim>\<open>ProjectStatus\<close> and the class \<^verbatim>\<open>Project\<close>
  of \<^verbatim>\<open>projectModel.ts\<close>, which \<^verbatim>\<open>app.ts\<close> references and uses (\<^verbatim>\<open>prj.status\<close>,
  \<^verbatim>\<open>project.id\<close>, \<^verbatim>\<open>project.title\<close>, \<^verbatim>\<open>project.manday\<close>, \<^verbatim>\<open>project.description\<close>).
  The spec gives a project an id, a title, a description, an effort in person-days and
  a status that is one of \<open>Active\<close> and \<open>Finished\<close>.  The field \<^verbatim>\<open>id\<close> is \<open>id'\<close> here.
\<close>

datatype ProjectStatus = Active | Finished

record Project =
  id' :: jsstring
  title :: jsstring
  description :: jsstring
  manday :: jsnum
  status :: ProjectStatus


section \<open>ProjectItem: one rendered project\<close>

text \<open>
  The getter \<^verbatim>\<open>ProjectItem.manday\<close> (\<^verbatim>\<open>app.ts\<close>, lines 38 to 44).  The suffixes are the
  two-character literals of the source, U+4EBA U+65E5 and U+4EBA U+6708.
\<close>

definition ProjectItem_manday :: "Project \<Rightarrow> jsstring" where
  "ProjectItem_manday project =
     (let man = manday project in
      if js_less (manday project) (Num 20) then Number_toString man @ [0x4EBA, 0x65E5]
      else Number_toString (js_div man (Num 20)) @ [0x4EBA, 0x6708])"

text \<open>
  The list element a \<^verbatim>\<open>ProjectItem\<close> mounts: the constructor gives it the project's id
  and \<^verbatim>\<open>ProjectItem.renderContent\<close> (lines 69 to 73) fills its three texts.
\<close>

record ProjectItem =
  element_id :: jsstring
  h2 :: jsstring
  h3 :: jsstring
  p :: jsstring

definition ProjectItem_renderContent :: "Project \<Rightarrow> ProjectItem" where
  "ProjectItem_renderContent project =
     \<lparr>element_id = id' project,
      h2 = title project,
      h3 = ProjectItem_manday project,
      p = description project\<rparr>"


section \<open>The project store\<close>

text \<open>
  Modelled from the spec: the store of \<^verbatim>\<open>projectState.ts\<close> (the global \<^verbatim>\<open>projectState\<close>
  that \<^verbatim>\<open>app.ts\<close> calls), which is not among the sources.  Section 4.1 of the spec gives
  its three operations and the change protocol.  The store holds the sequence of
  projects and the listeners in registration order.  A listener is a callback on the
  rest of the program, the world \<open>'w\<close>: it receives the sequence by value and returns
  the world it leaves behind, so it has no access to the store.
\<close>

type_synonym 'w Listener = "Project list \<Rightarrow> 'w \<Rightarrow> 'w"

record 'w ProjectState =
  projects :: "Project list"
  listeners :: "'w Listener list"

text \<open>
  Modelled from the spec: \<^verbatim>\<open>addListener\<close> "registers a callback"; there is no
  unregister operation.
\<close>

definition addListener :: "'w Listener \<Rightarrow> 'w ProjectState \<Rightarrow> 'w ProjectState" where
  "addListener listenerFn s = s\<lparr>listeners := listeners s @ [listenerFn]\<rparr>"

text \<open>
  Modelled from the spec: the change protocol "invoke[s] every registered listener
  exactly once, synchronously, in registration order, passing a snapshot (copy) of the
  full current sequence of projects".
\<close>

definition change_protocol :: "'w ProjectState \<Rightarrow> 'w \<Rightarrow> 'w" where
  "change_protocol s w = foldl (\<lambda>w' listenerFn. listenerFn (projects s) w') w (listeners s)"

text \<open>
  Modelled from the spec: "a freshly generated unique id".  The spec does not say how
  the id is made; the model takes a string of zeros one longer than every id in the
  store.
\<close>

definition fresh_id :: "Project list \<Rightarrow> jsstring" where
  "fresh_id ps = replicate (Suc (foldr (\<lambda>prj n. max (length (id' prj)) n) ps 0)) 0x30"

text \<open>
  Modelled from the spec: \<^verbatim>\<open>addProject\<close> "constructs a new Project with a freshly
  generated unique id and status = Active, appends it to the end of the sequence, then
  invokes the change protocol".
\<close>

fun addProject ::
  "jsstring \<Rightarrow> jsstring \<Rightarrow> jsnum \<Rightarrow> 'w ProjectState \<times> 'w \<Rightarrow> 'w ProjectState \<times> 'w" where
  "addProject title' description' manday' (s, w) =
     (let newProject =
            \<lparr>id' = fresh_id (projects s), title = title', description = description',
             manday = manday', status = Active\<rparr>;
          s' = s\<lparr>projects := projects s @ [newProject]\<rparr>
      in (s', change_protocol s' w))"

text \<open>
  Modelled from the spec: \<^verbatim>\<open>changeProjectState\<close> "looks up the project by id; if found
  and newStatus differs from current status, updates status in place and invokes the
  change protocol.  If no project with that id exists, the operation is a no-op".  The
  project looked up is the first one with the id.
\<close>

fun update_status :: "jsstring \<Rightarrow> ProjectStatus \<Rightarrow> Project list \<Rightarrow> Project list" where
  "update_status projectId newStatus [] = []"
| "update_status projectId newStatus (prj # ps) =
     (if id' prj = projectId then prj\<lparr>status := newStatus\<rparr> # ps
      else prj # update_status projectId newStatus ps)"

fun changeProjectState ::
  "jsstring \<Rightarrow> ProjectStatus \<Rightarrow> 'w ProjectState \<times> 'w \<Rightarrow> 'w ProjectState \<times> 'w" where
  "changeProjectState projectId newStatus (s, w) =
     (case find (\<lambda>prj. id' prj = projectId) (projects s) of
        None \<Rightarrow> (s, w)
      | Some project \<Rightarrow>
          if status project \<noteq> newStatus then
            (let s' = s\<lparr>projects := update_status projectId newStatus (projects s)\<rparr>
             in (s', change_protocol s' w))
          else (s, w))"




text \<open>
  What the listeners of a store see.  A recording listener writes down its own number
  and the sequence it is handed; a store with \<open>n\<close> of them, registered in the order
  \<open>0, \<dots>, n - 1\<close>, leaves in the world the list of all deliveries in the order they
  were made.  \<open>observed\<close> is the world in which each successive listener of a round is
  invoked.
\<close>

type_synonym Deliveries = "(nat \<times> Project list) list"

definition recorder :: "nat \<Rightarrow> Deliveries Listener" where
  "recorder i ps seen = seen @ [(i, ps)]"

definition recording_store :: "nat \<Rightarrow> Project list \<Rightarrow> Deliveries ProjectState" where
  "recording_store n ps = \<lparr>projects = ps, listeners = map recorder [0..<n]\<rparr>"

fun observed :: "'w Listener list \<Rightarrow> Project list \<Rightarrow> 'w \<Rightarrow> 'w list" where
  "observed [] ps w = []"
| "observed (listenerFn # ls) ps w = w # observed ls ps (listenerFn ps w)"







section \<open>ProjectList: the two presenters\<close>

text \<open>
  The state outside the store that the handlers of \<^verbatim>\<open>app.ts\<close> read and write:
  the values of the three input elements of the form, the alerts shown so far, and,
  for each of the two \<^verbatim>\<open>ProjectList\<close> instances created at the end of the file, its
  \<^verbatim>\<open>assignedProjects\<close>, the children of its \<^verbatim>\<open>ul\<close> element and whether that element
  carries the class \<^verbatim>\<open>droppable\<close>.  An instance is named by its \<^verbatim>\<open>type\<close>.  The element
  that \<^verbatim>\<open>renderProjects\<close> looks up by id is taken to be the instance's own \<^verbatim>\<open>ul\<close>.
\<close>

datatype ListType = active | finished

record ProjectList =
  assignedProjects :: "Project list"
  ul :: "ProjectItem list"
  droppable :: bool

record UI =
  titleInputElement :: jsstring
  descriptionInputElement :: jsstring
  mandayInputElement :: jsstring
  alerts :: "jsstring list"
  projectLists :: "ListType \<Rightarrow> ProjectList"

type_synonym App = "UI ProjectState \<times> UI"

text \<open>
  \<^verbatim>\<open>renderProjects\<close> (lines 131 to 137): empty the list element, then mount one
  \<^verbatim>\<open>ProjectItem\<close> per assigned project, each at the end.
\<close>

definition renderProjects :: "ListType \<Rightarrow> UI \<Rightarrow> UI" where
  "renderProjects t ui =
     (let this = projectLists ui t;
          li = foldl (\<lambda>children prj. children @ [ProjectItem_renderContent prj]) []
                 (assignedProjects this)
      in ui\<lparr>projectLists := (projectLists ui)(t := this\<lparr>ul := li\<rparr>)\<rparr>)"

text \<open>The listener that \<^verbatim>\<open>configure\<close> registers with the store (lines 119 to 128).\<close>

definition ProjectList_listener :: "ListType \<Rightarrow> UI Listener" where
  "ProjectList_listener t projects' ui =
     (let relevantProject =
            filter (\<lambda>prj. if t = active then status prj = Active else status prj = Finished)
              projects'
      in renderProjects t
           (ui\<lparr>projectLists :=
                 (projectLists ui)(t := (projectLists ui t)\<lparr>assignedProjects := relevantProject\<rparr>)\<rparr>))"

text \<open>
  A drag event: whether its default action has been prevented, and its
  \<^verbatim>\<open>dataTransfer\<close>, which may be null.  A data transfer declares a list of types and
  holds one string per format.
\<close>

record DataTransfer =
  types :: "jsstring list"
  contents :: "(jsstring \<times> jsstring) list"

definition getData :: "jsstring \<Rightarrow> DataTransfer \<Rightarrow> jsstring" where
  "getData format dt = (case map_of (contents dt) format of None \<Rightarrow> [] | Some d \<Rightarrow> d)"

record Event =
  defaultPrevented :: bool

record DragEvent = Event +
  dataTransfer :: "DataTransfer option"

text \<open>
  \<^verbatim>\<open>dragOverHandler\<close> (lines 88 to 94) and \<^verbatim>\<open>dragLeaveHandler\<close> (lines 96 to 99).  Both
  carry \<^verbatim>\<open>@autobind\<close>, so they run with \<^verbatim>\<open>this\<close> the instance.  \<^verbatim>\<open>types[0]\<close> of an empty
  list is \<^verbatim>\<open>undefined\<close>, which is not the string compared with.
\<close>

definition dragOverHandler :: "ListType \<Rightarrow> DragEvent \<Rightarrow> UI \<Rightarrow> DragEvent \<times> UI" where
  "dragOverHandler t event ui =
     (case dataTransfer event of
        None \<Rightarrow> (event, ui)
      | Some dt \<Rightarrow>
          (case types dt of
             [] \<Rightarrow> (event, ui)
           | ty # _ \<Rightarrow>
               if ty = str ''text/plain'' then
                 (event\<lparr>defaultPrevented := True\<rparr>,
                  ui\<lparr>projectLists :=
                       (projectLists ui)(t := (projectLists ui t)\<lparr>droppable := True\<rparr>)\<rparr>)
               else (event, ui)))"

definition dragLeaveHandler :: "ListType \<Rightarrow> UI \<Rightarrow> UI" where
  "dragLeaveHandler t ui =
     ui\<lparr>projectLists := (projectLists ui)(t := (projectLists ui t)\<lparr>droppable := False\<rparr>)\<rparr>"

text \<open>
  \<^verbatim>\<open>dropHandler\<close> (lines 101 to 104) reads \<^verbatim>\<open>this.type\<close>, so the model takes the receiver
  it is called with: a \<^verbatim>\<open>ProjectList\<close> instance, whose \<^verbatim>\<open>type\<close> is set, or the DOM element
  a listener is attached to, which has no such property.  A null \<^verbatim>\<open>dataTransfer\<close> makes
  the call of \<^verbatim>\<open>getData\<close> throw.
\<close>

datatype This = Instance ListType | Element

fun this_type :: "This \<Rightarrow> ListType option" where
  "this_type (Instance t) = Some t"
| "this_type Element = None"

datatype error = TypeError

definition dropHandler :: "This \<Rightarrow> DragEvent \<Rightarrow> App \<Rightarrow> error + App" where
  "dropHandler this event st =
     (case dataTransfer event of
        None \<Rightarrow> Inl TypeError
      | Some dt \<Rightarrow>
          (let prj = getData (str ''text/plain'') dt
           in Inr (changeProjectState prj
                     (if this_type this = Some active then Active else Finished) st)))"

text \<open>
  What runs when the element of the instance \<open>t\<close> receives a drop.  \<^verbatim>\<open>configure\<close>
  (lines 115 to 117) passes \<^verbatim>\<open>this.dragOverHandler\<close>, \<^verbatim>\<open>this.dropHandler\<close> and
  \<^verbatim>\<open>this.dragLeaveHandler\<close> to \<^verbatim>\<open>addEventListener\<close>.  The first and the last are bound
  to the instance by their decorator.  \<^verbatim>\<open>dropHandler\<close> has no decorator: it is passed as a
  bare method, and an event listener that is a plain function is called with \<^verbatim>\<open>this\<close> the
  element it was added to.
\<close>

definition on_drop :: "ListType \<Rightarrow> DragEvent \<Rightarrow> App \<Rightarrow> error + App" where
  "on_drop t event st = dropHandler Element event st"


section \<open>ProjectInput: the form\<close>

text \<open>
  Modelled from the spec: the field description and the predicate \<^verbatim>\<open>validate\<close> of
  \<^verbatim>\<open>validate.ts\<close>, which is not among the sources.  Section 4.3 of the spec gives the
  description as \<^verbatim>\<open>{value, required, minLength?, maxLength?, min?, max?}\<close> and the five
  checks, all of which must pass.  The fields \<^verbatim>\<open>value\<close>, \<^verbatim>\<open>min\<close> and \<^verbatim>\<open>max\<close> are \<open>value'\<close>,
  \<open>min'\<close> and \<open>max'\<close> here.  The conversion of a string to its numeric value is a
  parameter.
\<close>

record Validatable =
  value' :: jsstring
  required :: bool
  minLength :: "nat option"
  maxLength :: "nat option"
  min' :: "jsnum option"
  max' :: "jsnum option"

definition is_space :: "jschar \<Rightarrow> bool" where
  "is_space c =
     (c \<in> {0x9, 0xA, 0xB, 0xC, 0xD, 0x20, 0xA0, 0x1680, 0x2028, 0x2029, 0x202F, 0x205F,
            0x3000, 0xFEFF} \<or> (0x2000 \<le> c \<and> c \<le> 0x200A))"

definition trim :: "jsstring \<Rightarrow> jsstring" where
  "trim s = rev (dropWhile is_space (rev (dropWhile is_space s)))"

definition validate :: "(jsstring \<Rightarrow> jsnum) \<Rightarrow> Validatable \<Rightarrow> bool" where
  "validate toNumber v =
     (\<not> (required v \<and> length (trim (value' v)) = 0) \<and>
      (case minLength v of None \<Rightarrow> True | Some n \<Rightarrow> \<not> length (value' v) < n) \<and>
      (case maxLength v of None \<Rightarrow> True | Some n \<Rightarrow> \<not> n < length (value' v)) \<and>
      (case min' v of None \<Rightarrow> True | Some m \<Rightarrow> \<not> js_less (toNumber (value' v)) m) \<and>
      (case max' v of None \<Rightarrow> True | Some m \<Rightarrow> \<not> js_less m (toNumber (value' v))))"

text \<open>
  \<^verbatim>\<open>gatherInputs\<close> (lines 164 to 176).  The predicate it calls and the conversion
  \<^verbatim>\<open>+man\<close> of the entered string to a number are parameters; the three field
  descriptions are those of the source.  The text of the alert is the literal of line
  172, by its code units.  The result is the triple, or nothing after the alert.
\<close>

definition alert_text :: jsstring where
  "alert_text =
     [0x5165, 0x529B, 0x5024, 0x304C, 0x6B63, 0x3057, 0x304F, 0x3042, 0x308A, 0x307E,
      0x305B, 0x3093]"

definition text_field :: "jsstring \<Rightarrow> Validatable" where
  "text_field v =
     \<lparr>value' = v, required = True, minLength = Some 2, maxLength = None,
      min' = None, max' = None\<rparr>"

definition manday_field :: "jsstring \<Rightarrow> Validatable" where
  "manday_field v =
     \<lparr>value' = v, required = True, minLength = None, maxLength = None,
      min' = Some (Num 0), max' = Some (Num 100)\<rparr>"

definition gatherInputs ::
  "(Validatable \<Rightarrow> bool) \<Rightarrow> (jsstring \<Rightarrow> jsnum) \<Rightarrow> UI \<Rightarrow>
   (jsstring \<times> jsstring \<times> jsnum) option \<times> UI" where
  "gatherInputs validate' toNumber ui =
     (let title' = titleInputElement ui;
          desc = descriptionInputElement ui;
          man = mandayInputElement ui
      in if \<not> validate' (text_field title') \<or>
            \<not> validate' (text_field desc) \<or>
            \<not> validate' (manday_field man)
         then (None, ui\<lparr>alerts := alerts ui @ [alert_text]\<rparr>)
         else (Some (title', desc, toNumber man), ui))"

text \<open>\<^verbatim>\<open>clearInput\<close> (lines 179 to 183).\<close>

definition clearInput :: "UI \<Rightarrow> UI" where
  "clearInput ui =
     ui\<lparr>titleInputElement := [], descriptionInputElement := [], mandayInputElement := []\<rparr>"


text \<open>
  \<^verbatim>\<open>submitFunc\<close> (lines 186 to 196), bound to the instance by its decorator.  It
  returns the event, whose default action it prevents, and the state it leaves.
\<close>

definition submitFunc ::
  "(Validatable \<Rightarrow> bool) \<Rightarrow> (jsstring \<Rightarrow> jsnum) \<Rightarrow> Event \<Rightarrow> App \<Rightarrow> Event \<times> App" where
  "submitFunc validate' toNumber event st =
     (let event' = event\<lparr>defaultPrevented := True\<rparr>;
          (userInput, ui) = gatherInputs validate' toNumber (snd st)
      in case userInput of
           Some (title', desc, man) \<Rightarrow>
             (event', addProject title' desc man (fst st, clearInput ui))
         | None \<Rightarrow> (event', (fst st, ui)))"

text \<open>
  The program as the last three lines of \<^verbatim>\<open>app.ts\<close> leave it: empty inputs, the two
  presenters with nothing assigned, and their listeners in the store, the one of
  \<^verbatim>\<open>'active'\<close> first.
\<close>

definition start :: App where
  "start =
     (addListener (ProjectList_listener finished)
        (addListener (ProjectList_listener active) \<lparr>projects = [], listeners = []\<rparr>),
      \<lparr>titleInputElement = [], descriptionInputElement = [], mandayInputElement = [],
       alerts = [],
       projectLists = (\<lambda>t. \<lparr>assignedProjects = [], ul = [], droppable = False\<rparr>)\<rparr>)"


section \<open>Examples\<close>

text \<open>
  The project of the spec's end-to-end example, with the id the store gives the first
  project it creates; the form with three values entered; the drag event of the
  \<^verbatim>\<open>ProjectItem\<close> of a project, as \<^verbatim>\<open>dragStartHandler\<close> (lines 55 to 59) fills it, with the
  project's id as its only data, of type \<^verbatim>\<open>text/plain\<close>; and the program after the project
  has been added and moved to the finished list.
\<close>

definition website :: Project where
  "website =
     \<lparr>id' = str ''0'', title = str ''Website'', description = str ''Build it'',
      manday = Num 10, status = Active\<rparr>"

definition entered :: "jsstring \<Rightarrow> jsstring \<Rightarrow> jsstring \<Rightarrow> UI" where
  "entered t d m =
     (snd start)\<lparr>titleInputElement := t, descriptionInputElement := d, mandayInputElement := m\<rparr>"

definition project_drag :: "jsstring \<Rightarrow> DragEvent" where
  "project_drag projectId =
     \<lparr>defaultPrevented = False,
      dataTransfer =
        Some \<lparr>types = [str ''text/plain''], contents = [(str ''text/plain'', projectId)]\<rparr>\<rparr>"

definition website_finished :: App where
  "website_finished =
     changeProjectState (str ''0'') Finished
       (addProject (str ''Website'') (str ''Build it'') (Num 10) start)"

text \<open>
  An instance of the two parameters of the form for the examples.  \<open>decimal_toNumber\<close>
  is the conversion \<^verbatim>\<open>+man\<close> on the strings it is used on here, those that consist of
  decimal digits, possibly between white space, (their value) or of white space only
  (zero), and on strings that are no numeric literal (\<open>NaN\<close>); it does not read a sign,
  a fraction, an exponent, another radix or \<^verbatim>\<open>Infinity\<close>.  No theorem but the examples
  uses it.
\<close>

definition decimal_toNumber :: "jsstring \<Rightarrow> jsnum" where
  "decimal_toNumber s =
     (let t = trim s
      in if t = [] then Num 0
         else if list_all (\<lambda>c. 0x30 \<le> c \<and> c \<le> 0x39) t
         then Num (of_nat (foldl (\<lambda>n c. 10 * n + (unat c - 48)) 0 t))
         else NaN)"


section \<open>The store: notification, creation, unknown ids\<close>

lemma fresh_id_longer: "prj \<in> set ps \<Longrightarrow> length (id' prj) < length (fresh_id ps)"
  by (induction ps) (auto simp: fresh_id_def)

lemma fresh_id_new: "fresh_id ps \<notin> id' ` set ps"
  using fresh_id_longer by fastforce

lemma find_id_None: "find (\<lambda>prj. id' prj = i) ps = None \<longleftrightarrow> i \<notin> id' ` set ps"
  by (auto simp: find_None_iff)

















text \<open>
  C2.  On the store modelled from the spec, \<^verbatim>\<open>addProject(title, description, manday)\<close>
  leaves the projects that were there as they were and in their order, followed by
  exactly one new project, whose status is \<open>Active\<close>, whose title, description and
  manday are the arguments, and whose id is the id of none of the projects that were
  there.  The listeners are the same.
\<close>

theorem addProject_appends_fresh:
  "projects (fst (addProject t d m (s, w))) =
     projects s @
     [\<lparr>id' = fresh_id (projects s), title = t, description = d, manday = m,
       status = Active\<rparr>] \<and>
   fresh_id (projects s) \<notin> id' ` set (projects s) \<and>
   listeners (fst (addProject t d m (s, w))) = listeners s"
  by (simp add: Let_def fresh_id_new)

theorem addProject_appends_fresh_witness:
  "projects (fst (addProject (str ''Shop'') (str ''Sell it'') (Num 30)
       (recording_store 1 [website], []))) =
     [website,
      \<lparr>id' = str ''00'', title = str ''Shop'', description = str ''Sell it'', manday = Num 30,
       status = Active\<rparr>] \<and>
   str ''00'' \<notin> id' ` set [website]"
proof -
  have f: "fresh_id [website] = str ''00''"
    by (simp add: fresh_id_def website_def str_def)
  have p: "projects (recording_store 1 [website]) = [website]"
    by (simp add: recording_store_def)
  from addProject_appends_fresh
         [of "str ''Shop''" "str ''Sell it''" "Num 30" "recording_store 1 [website]" "[]"]
  show ?thesis
    by (simp only: f p append_Cons append_Nil simp_thms)
qed

text \<open>
  C3.  On the store modelled from the spec, \<^verbatim>\<open>changeProjectState(id, newStatus)\<close> with an
  id that no project of the store has returns the state it was given: the same
  projects with the same statuses in the same order, the same listeners, and the world
  of the listeners untouched, none of them having been invoked.  The operation has no
  failing branch; its result is always a state.
\<close>

theorem changeProjectState_unknown_id:
  "i \<notin> id' ` set (projects s) \<Longrightarrow> changeProjectState i newStatus (s, w) = (s, w)"
  by (simp add: find_id_None [symmetric])

theorem changeProjectState_unknown_id_witness:
  "str ''7'' \<notin> id' ` set (projects (recording_store 1 [website])) \<and>
   changeProjectState (str ''7'') Finished (recording_store 1 [website], []) =
     (recording_store 1 [website], [])"
proof -
  have h: "str ''7'' \<notin> id' ` set (projects (recording_store 1 [website]))"
    by (simp add: recording_store_def website_def str_def)
  from h changeProjectState_unknown_id [OF h] show ?thesis
    by (rule conjI)
qed


section \<open>The effort text of a project item\<close>









section \<open>The presenters: listener, drag over, drop\<close>

lemma renderProjects_children:
  "foldl (\<lambda>children prj. children @ [ProjectItem_renderContent prj]) acc ps =
     acc @ map ProjectItem_renderContent ps"
  by (induction ps arbitrary: acc) simp_all

lemma listener_own:
  "projectLists (ProjectList_listener t ps ui) t =
     (projectLists ui t)
       \<lparr>assignedProjects :=
          filter (\<lambda>prj. if t = active then status prj = Active else status prj = Finished) ps,
        ul := map ProjectItem_renderContent
          (filter (\<lambda>prj. if t = active then status prj = Active else status prj = Finished)
             ps)\<rparr>"
  by (simp add: ProjectList_listener_def renderProjects_def Let_def renderProjects_children)

lemma listener_other:
  "t' \<noteq> t \<Longrightarrow> projectLists (ProjectList_listener t ps ui) t' = projectLists ui t'"
  by (simp add: ProjectList_listener_def renderProjects_def Let_def)

lemma status_partition:
  "filter_mset (\<lambda>prj. status prj = Active) M + filter_mset (\<lambda>prj. status prj = Finished) M = M"
proof (induction M)
  case empty
  then show ?case by simp
next
  case (add x M)
  then show ?case by (cases "status x") simp_all
qed

text \<open>
  C7.  When the listener of a presenter is handed a snapshot, the presenter's
  \<^verbatim>\<open>assignedProjects\<close> become exactly the projects of the snapshot whose status is the
  presenter's (\<open>Active\<close> for \<^verbatim>\<open>'active'\<close>, \<open>Finished\<close> for \<^verbatim>\<open>'finished'\<close>), in the order of
  the snapshot, and its list element is rendered anew: its children are the items of
  those projects, in that order.  After both listeners have been handed the same
  snapshot, the two views together hold every project of the snapshot as often as the
  snapshot does, and no project is in both.
\<close>

theorem listener_filters_and_renders:
  "assignedProjects (projectLists (ProjectList_listener active ps ui) active) =
     filter (\<lambda>prj. status prj = Active) ps \<and>
   ul (projectLists (ProjectList_listener active ps ui) active) =
     map ProjectItem_renderContent (filter (\<lambda>prj. status prj = Active) ps) \<and>
   assignedProjects (projectLists (ProjectList_listener finished ps ui) finished) =
     filter (\<lambda>prj. status prj = Finished) ps \<and>
   ul (projectLists (ProjectList_listener finished ps ui) finished) =
     map ProjectItem_renderContent (filter (\<lambda>prj. status prj = Finished) ps) \<and>
   mset (assignedProjects
           (projectLists
              (ProjectList_listener finished ps (ProjectList_listener active ps ui)) active)) +
   mset (assignedProjects
           (projectLists
              (ProjectList_listener finished ps (ProjectList_listener active ps ui)) finished)) =
     mset ps \<and>
   set (filter (\<lambda>prj. status prj = Active) ps) \<inter>
   set (filter (\<lambda>prj. status prj = Finished) ps) = {}"
proof -
  have "projectLists (ProjectList_listener finished ps (ProjectList_listener active ps ui)) active =
      projectLists (ProjectList_listener active ps ui) active"
    by (rule listener_other) simp
  then show ?thesis
    by (auto simp: listener_own status_partition)
qed

theorem listener_filters_and_renders_witness:
  "assignedProjects
     (projectLists
        (ProjectList_listener active [website, website\<lparr>id' := str ''00'', status := Finished\<rparr>]
           (snd start)) active) = [website] \<and>
   ul (projectLists
        (ProjectList_listener active [website, website\<lparr>id' := str ''00'', status := Finished\<rparr>]
           (snd start)) active) =
     [\<lparr>element_id = str ''0'', h2 = str ''Website'', h3 = str ''10'' @ [0x4EBA, 0x65E5],
       p = str ''Build it''\<rparr>]"
proof -
  let ?ps = "[website, website\<lparr>id' := str ''00'', status := Finished\<rparr>]"
  have f: "filter (\<lambda>prj. status prj = Active) ?ps = [website]"
    by (simp add: website_def)
  have r: "map ProjectItem_renderContent [website] =
      [\<lparr>element_id = str ''0'', h2 = str ''Website'', h3 = str ''10'' @ [0x4EBA, 0x65E5],
       p = str ''Build it''\<rparr>]"
    by code_simp
  note t = listener_filters_and_renders [of ?ps "snd start"]
  from conjunct1 [OF t] conjunct1 [OF conjunct2 [OF t]] show ?thesis
    by (simp only: f r simp_thms)
qed

text \<open>
  C9, as amended.  \<^verbatim>\<open>dragOverHandler\<close> accepts the drop target (prevents the default
  action of the event and adds the class \<^verbatim>\<open>droppable\<close> to the list element) if and only
  if the event has a data transfer and the first of its declared types is
  \<^verbatim>\<open>text/plain\<close>; otherwise it changes nothing.  What the data transfer holds is not
  looked at: with other contents the outcome is the same.
\<close>

theorem dragOverHandler_first_type:
  "dragOverHandler t event ui =
     (if (case dataTransfer event of
            None \<Rightarrow> False
          | Some dt \<Rightarrow> take 1 (types dt) = [str ''text/plain''])
      then (event\<lparr>defaultPrevented := True\<rparr>,
            ui\<lparr>projectLists :=
                 (projectLists ui)(t := (projectLists ui t)\<lparr>droppable := True\<rparr>)\<rparr>)
      else (event, ui)) \<and>
   (dataTransfer event = Some dt \<longrightarrow>
      dragOverHandler t (event\<lparr>dataTransfer := Some (dt\<lparr>contents := c\<rparr>)\<rparr>) ui =
        (case dragOverHandler t event ui of
           (event', ui') \<Rightarrow> (event'\<lparr>dataTransfer := Some (dt\<lparr>contents := c\<rparr>)\<rparr>, ui')))"
  by (auto simp: dragOverHandler_def split: option.splits list.splits)

theorem dragOverHandler_first_type_witness:
  "dataTransfer (project_drag (str ''0'')) =
     Some \<lparr>types = [str ''text/plain''], contents = [(str ''text/plain'', str ''0'')]\<rparr> \<and>
   dragOverHandler active (project_drag (str ''0'')) (snd start) =
     ((project_drag (str ''0''))\<lparr>defaultPrevented := True\<rparr>,
      (snd start)\<lparr>projectLists :=
         (projectLists (snd start))
           (active := (projectLists (snd start) active)\<lparr>droppable := True\<rparr>)\<rparr>) \<and>
   dragOverHandler active (project_drag (str ''7'')) (snd start) =
     ((project_drag (str ''7''))\<lparr>defaultPrevented := True\<rparr>,
      (snd start)\<lparr>projectLists :=
         (projectLists (snd start))
           (active := (projectLists (snd start) active)\<lparr>droppable := True\<rparr>)\<rparr>)"
proof -
  let ?dt = "\<lparr>types = [str ''text/plain''], contents = [(str ''text/plain'', str ''0'')]\<rparr>"
  let ?ui = "(snd start)\<lparr>projectLists :=
         (projectLists (snd start))
           (active := (projectLists (snd start) active)\<lparr>droppable := True\<rparr>)\<rparr>"
  have d: "dataTransfer (project_drag (str ''0'')) = Some ?dt"
    by (simp add: project_drag_def)
  have c: "(case dataTransfer (project_drag (str ''0'')) of
            None \<Rightarrow> False
          | Some dt \<Rightarrow> take 1 (types dt) = [str ''text/plain''])"
    by (simp add: d)
  note t = dragOverHandler_first_type [of active "project_drag (str ''0'')" "snd start" ?dt
      "[(str ''text/plain'', str ''7'')]"]
  from conjunct1 [OF t] c
  have one: "dragOverHandler active (project_drag (str ''0'')) (snd start) =
      ((project_drag (str ''0''))\<lparr>defaultPrevented := True\<rparr>, ?ui)"
    by (simp only: if_True)
  have e: "(project_drag (str ''0''))
      \<lparr>dataTransfer := Some (?dt\<lparr>contents := [(str ''text/plain'', str ''7'')]\<rparr>)\<rparr> =
      project_drag (str ''7'')"
    by (simp add: project_drag_def)
  from conjunct2 [OF t] d
  have "dragOverHandler active (project_drag (str ''7'')) (snd start) =
      ((project_drag (str ''7''))\<lparr>defaultPrevented := True\<rparr>, ?ui)"
    by (simp add: one e) (simp add: project_drag_def)
  with d one show ?thesis
    by (simp only: simp_thms)
qed

text \<open>
  C9 as stated fails: a data transfer that declares \<^verbatim>\<open>text/uri-list\<close> and then
  \<^verbatim>\<open>text/plain\<close> declares the plain-text type, and the drop target is not accepted.
\<close>

theorem dragOverHandler_text_plain_second:
  "str ''text/plain'' \<in>
     set (types \<lparr>types = [str ''text/uri-list'', str ''text/plain''], contents = []\<rparr>) \<and>
   \<not> defaultPrevented (fst (dragOverHandler active
        \<lparr>defaultPrevented = False,
         dataTransfer =
           Some \<lparr>types = [str ''text/uri-list'', str ''text/plain''], contents = []\<rparr>\<rparr>
        (snd start))) \<and>
   \<not> droppable (projectLists (snd (dragOverHandler active
        \<lparr>defaultPrevented = False,
         dataTransfer =
           Some \<lparr>types = [str ''text/uri-list'', str ''text/plain''], contents = []\<rparr>\<rparr>
        (snd start))) active)"
  by (simp add: dragOverHandler_def start_def str_def)

lemma changeProjectState_same_status:
  "find (\<lambda>prj. id' prj = i) (projects s) = Some prj \<Longrightarrow> status prj = ns \<Longrightarrow>
   changeProjectState i ns (s, w) = (s, w)"
  by simp

text \<open>
  Called on a \<^verbatim>\<open>ProjectList\<close> instance, \<^verbatim>\<open>dropHandler\<close> asks the store for the status of
  that instance's list.  As the listener that \<^verbatim>\<open>configure\<close> registers, it is called on
  the element and asks for \<open>Finished\<close>, whichever list the element belongs to.
\<close>

lemma dropHandler_Instance:
  "dataTransfer event = Some dt \<Longrightarrow>
   dropHandler (Instance t) event st =
     Inr (changeProjectState (getData (str ''text/plain'') dt)
            (if t = active then Active else Finished) st)"
  by (simp add: dropHandler_def)

lemma on_drop_Finished:
  "dataTransfer event = Some dt \<Longrightarrow>
   on_drop t event st = Inr (changeProjectState (getData (str ''text/plain'') dt) Finished st)"
  by (simp add: on_drop_def dropHandler_def)

lemma website_finished_projects:
  "projects (fst website_finished) = [website\<lparr>status := Finished\<rparr>]"
  by (simp add: website_finished_def start_def addListener_def Let_def fresh_id_def
      website_def str_def)

text \<open>
  C8 does not hold of the program.  The project of the example has been added and
  moved to the finished list; its item is dropped on the list of \<^verbatim>\<open>'active'\<close>.  The
  call made is \<^verbatim>\<open>changeProjectState\<close> with the project's id and \<open>Finished\<close>, which leaves
  the project finished, where the claim has the call made with \<open>Active\<close>, which would
  make it active.
\<close>

theorem on_drop_active_requests_Finished:
  "on_drop active (project_drag (str ''0'')) website_finished =
     Inr (changeProjectState (str ''0'') Finished website_finished) \<and>
   map status (projects (fst (changeProjectState (str ''0'') Finished website_finished))) =
     [Finished] \<and>
   map status (projects (fst (changeProjectState (str ''0'') Active website_finished))) =
     [Active]"
proof -
  obtain s w where st: "website_finished = (s, w)"
    by (cases website_finished)
  have p: "projects s = [website\<lparr>status := Finished\<rparr>]"
    using website_finished_projects by (simp add: st)
  have g: "getData (str ''text/plain'')
      \<lparr>types = [str ''text/plain''], contents = [(str ''text/plain'', str ''0'')]\<rparr> = str ''0''"
    by (simp add: getData_def)
  have "on_drop active (project_drag (str ''0'')) (s, w) =
      Inr (changeProjectState (str ''0'') Finished (s, w))"
    using on_drop_Finished [of "project_drag (str ''0'')" _ active "(s, w)"]
    by (simp add: project_drag_def g del: changeProjectState.simps)
  moreover have "changeProjectState (str ''0'') Finished (s, w) = (s, w)"
    by (rule changeProjectState_same_status [where prj = "website\<lparr>status := Finished\<rparr>"])
       (simp_all add: p website_def)
  moreover have "map status (projects (fst (changeProjectState (str ''0'') Active (s, w)))) =
      [Active]"
    by (simp add: p website_def Let_def)
  ultimately show ?thesis
    by (simp add: st p)
qed


section \<open>The form: rejected and accepted submissions\<close>

lemma gatherInputs_reject:
  "\<not> validate' (text_field (titleInputElement ui)) \<or>
   \<not> validate' (text_field (descriptionInputElement ui)) \<or>
   \<not> validate' (manday_field (mandayInputElement ui)) \<Longrightarrow>
   gatherInputs validate' toNumber ui = (None, ui\<lparr>alerts := alerts ui @ [alert_text]\<rparr>)"
  by (auto simp: gatherInputs_def Let_def)

lemma gatherInputs_accept:
  "validate' (text_field (titleInputElement ui)) \<Longrightarrow>
   validate' (text_field (descriptionInputElement ui)) \<Longrightarrow>
   validate' (manday_field (mandayInputElement ui)) \<Longrightarrow>
   gatherInputs validate' toNumber ui =
     (Some (titleInputElement ui, descriptionInputElement ui, toNumber (mandayInputElement ui)),
      ui)"
  by (simp add: gatherInputs_def Let_def)

lemma submitFunc_accept:
  assumes "validate' (text_field (titleInputElement ui))"
    and "validate' (text_field (descriptionInputElement ui))"
    and "validate' (manday_field (mandayInputElement ui))"
  shows "submitFunc validate' toNumber event (s, ui) =
     (event\<lparr>defaultPrevented := True\<rparr>,
      addProject (titleInputElement ui) (descriptionInputElement ui)
        (toNumber (mandayInputElement ui)) (s, clearInput ui))"
  using gatherInputs_accept [OF assms, of toNumber]
  by (simp add: submitFunc_def Let_def del: addProject.simps)

lemma entered_inputs:
  "titleInputElement (entered t d m) = t"
  "descriptionInputElement (entered t d m) = d"
  "mandayInputElement (entered t d m) = m"
  by (simp_all add: entered_def)

lemma valid_Website: "validate decimal_toNumber (text_field (str ''Website''))"
  by code_simp

lemma valid_Build_it: "validate decimal_toNumber (text_field (str ''Build it''))"
  by code_simp

lemma valid_10: "validate decimal_toNumber (manday_field (str ''10''))"
  by code_simp

lemma toNumber_10: "decimal_toNumber (str ''10'') = Num 10"
  by code_simp

text \<open>
  C5.  When one of the three entered values fails the validation of its field,
  whatever the predicate is, \<^verbatim>\<open>submitFunc\<close> shows one alert and does nothing else: the
  store is as it was, so \<^verbatim>\<open>addProject\<close> was not called and no listener ran, and the
  three input elements keep their values.
\<close>

theorem rejected_submission:
  assumes "\<not> validate' (text_field (titleInputElement ui)) \<or>
     \<not> validate' (text_field (descriptionInputElement ui)) \<or>
     \<not> validate' (manday_field (mandayInputElement ui))"
  shows "submitFunc validate' toNumber event (s, ui) =
     (event\<lparr>defaultPrevented := True\<rparr>, (s, ui\<lparr>alerts := alerts ui @ [alert_text]\<rparr>))"
  using gatherInputs_reject [OF assms, of toNumber]
  by (simp add: submitFunc_def Let_def)

theorem rejected_submission_witness:
  "\<not> validate decimal_toNumber
       (manday_field
          (mandayInputElement (entered (str ''Website'') (str ''Build it'') (str ''150'')))) \<and>
   submitFunc (validate decimal_toNumber) decimal_toNumber \<lparr>defaultPrevented = False\<rparr>
       (fst start, entered (str ''Website'') (str ''Build it'') (str ''150'')) =
     (\<lparr>defaultPrevented = True\<rparr>,
      (fst start,
       (entered (str ''Website'') (str ''Build it'') (str ''150''))\<lparr>alerts := [alert_text]\<rparr>))"
proof -
  let ?ui = "entered (str ''Website'') (str ''Build it'') (str ''150'')"
  have h: "\<not> validate decimal_toNumber (manday_field (mandayInputElement ?ui))"
    by code_simp
  then have "\<not> validate decimal_toNumber (text_field (titleInputElement ?ui)) \<or>
     \<not> validate decimal_toNumber (text_field (descriptionInputElement ?ui)) \<or>
     \<not> validate decimal_toNumber (manday_field (mandayInputElement ?ui))"
    by blast
  from rejected_submission [OF this, of decimal_toNumber "\<lparr>defaultPrevented = False\<rparr>"
      "fst start"]
  have "submitFunc (validate decimal_toNumber) decimal_toNumber \<lparr>defaultPrevented = False\<rparr>
       (fst start, ?ui) =
     (\<lparr>defaultPrevented = True\<rparr>, (fst start, ?ui\<lparr>alerts := [alert_text]\<rparr>))"
    by (simp add: entered_def start_def)
  with h show ?thesis
    by (rule conjI)
qed

text \<open>
  C6.  When the entered title and description pass the validation of a required field
  of minimum length 2 and the entered manday that of a required field with minimum 0
  and maximum 100, whatever the predicate is, \<^verbatim>\<open>submitFunc\<close> makes one call of
  \<^verbatim>\<open>addProject\<close>, with the entered title, the entered description and the number that
  the entered manday converts to; the store then holds one project more, with these
  three values.
\<close>

theorem accepted_submission:
  assumes "validate' (text_field (titleInputElement ui))"
    and "validate' (text_field (descriptionInputElement ui))"
    and "validate' (manday_field (mandayInputElement ui))"
  shows "submitFunc validate' toNumber event (s, ui) =
     (event\<lparr>defaultPrevented := True\<rparr>,
      addProject (titleInputElement ui) (descriptionInputElement ui)
        (toNumber (mandayInputElement ui)) (s, clearInput ui)) \<and>
   projects (fst (snd (submitFunc validate' toNumber event (s, ui)))) =
     projects s @
     [\<lparr>id' = fresh_id (projects s), title = titleInputElement ui,
       description = descriptionInputElement ui,
       manday = toNumber (mandayInputElement ui), status = Active\<rparr>]"
  using submitFunc_accept [OF assms, of toNumber event s]
  by (simp add: Let_def)

theorem accepted_submission_witness:
  "validate decimal_toNumber (text_field (str ''Website'')) \<and>
   validate decimal_toNumber (text_field (str ''Build it'')) \<and>
   validate decimal_toNumber (manday_field (str ''10'')) \<and>
   projects (fst (snd (submitFunc (validate decimal_toNumber) decimal_toNumber
       \<lparr>defaultPrevented = False\<rparr>
       (fst start, entered (str ''Website'') (str ''Build it'') (str ''10''))))) = [website]"
proof -
  let ?ui = "entered (str ''Website'') (str ''Build it'') (str ''10'')"
  have p: "projects (fst start) = []"
    by (simp add: start_def addListener_def)
  have f: "fresh_id [] = str ''0''"
    by (simp add: fresh_id_def str_def)
  have a': "validate decimal_toNumber (text_field (titleInputElement ?ui))"
    and b': "validate decimal_toNumber (text_field (descriptionInputElement ?ui))"
    and c': "validate decimal_toNumber (manday_field (mandayInputElement ?ui))"
    using valid_Website valid_Build_it valid_10 by (simp_all only: entered_inputs)
  note t = accepted_submission [OF a' b' c', of decimal_toNumber
      "\<lparr>defaultPrevented = False\<rparr>" "fst start"]
  from conjunct2 [OF t]
  have "projects (fst (snd (submitFunc (validate decimal_toNumber) decimal_toNumber
       \<lparr>defaultPrevented = False\<rparr> (fst start, ?ui)))) = [website]"
    by (simp only: entered_inputs toNumber_10 p f website_def append_Nil)
  with valid_Website valid_Build_it valid_10 show ?thesis
    by (simp only: simp_thms)
qed



text \<open>
  \<open>observed\<close> lists the worlds in which the listeners of a round are invoked: the
  listener at position \<open>k\<close> runs in the world the \<open>k\<close> listeners before it have left.
\<close>

lemma observed_nth:
  "k < length ls \<Longrightarrow>
   observed ls ps w ! k = foldl (\<lambda>w' listenerFn. listenerFn ps w') w (take k ls)"
proof (induction ls arbitrary: w k)
  case Nil
  then show ?case by simp
next
  case (Cons l ls)
  then show ?case by (cases k) simp_all
qed






end
